theory Spec2Isabelle
  imports Main "HOL-Library.Word" "HOL-Library.Sublist"
begin

unbundle bit_operations_syntax

section \<open>Errors and results\<close>

text \<open>
  Go functions of the launcher return a value together with an \<open>error\<close>, and some of
  them can panic. A result is \<open>Ok v\<close> for \<open>(v, nil)\<close>, \<open>Err e\<close> for a non-nil error
  (every error return of the sources returns the zero value beside it) and \<open>Panic\<close> for
  a run-time panic that unwinds the caller.

  \<open>ErrNotFound\<close>, \<open>ErrHomeDirEmpty\<close> and \<open>ErrNetworkEmpty\<close> are the package's sentinel
  errors. \<open>ErrorString s\<close> is \<open>errors.New(s)\<close> or \<open>fmt.Errorf\<close> without \<open>%w\<close>,
  \<open>Wrapped l e\<close> is \<open>fmt.Errorf("l: %w", e)\<close>, \<open>PathError op p n\<close> is the
  \<open>*os.PathError\<close> of a failed system call, and \<open>Foreign s\<close> is any other error made
  by a library (transport, JSON syntax, archive format).
\<close>

datatype errno = ENOENT | ENOTDIR | EEXIST | EISDIR

datatype error =
    ErrNotFound
  | ErrHomeDirEmpty
  | ErrNetworkEmpty
  | ErrorString string
  | Wrapped string error
  | PathError string string errno
  | Foreign string

datatype 'a result = Ok 'a | Err error | Panic string

text \<open>\<open>errors.Is(err, ErrNotFound)\<close>: the sentinel itself, or a chain of wrappers around it.\<close>

fun errors_Is_ErrNotFound :: "error \<Rightarrow> bool" where
  "errors_Is_ErrNotFound ErrNotFound = True"
| "errors_Is_ErrNotFound (Wrapped l e) = errors_Is_ErrNotFound e"
| "errors_Is_ErrNotFound _ = False"

text \<open>\<open>err.Error()\<close>, the text that \<open>fmt.Println(err)\<close> prints.\<close>

fun strerror :: "errno \<Rightarrow> string" where
  "strerror ENOENT = ''no such file or directory''"
| "strerror ENOTDIR = ''not a directory''"
| "strerror EEXIST = ''file exists''"
| "strerror EISDIR = ''is a directory''"

fun Error :: "error \<Rightarrow> string" where
  "Error ErrNotFound = ''not found''"
| "Error ErrHomeDirEmpty = ''homeDir is empty''"
| "Error ErrNetworkEmpty = ''network is empty''"
| "Error (ErrorString s) = s"
| "Error (Wrapped l e) = l @ '': '' @ Error e"
| "Error (PathError op p n) = op @ '' '' @ p @ '': '' @ strerror n"
| "Error (Foreign s) = s"

section \<open>Data of the GitHub client\<close>

text \<open>
  What \<open>encoding/json\<close> stores in an \<open>interface{}\<close>: \<open>nil\<close>, \<open>bool\<close>, \<open>float64\<close>,
  \<open>string\<close>, \<open>[]interface{}\<close> and \<open>map[string]interface{}\<close>. The launcher never reads a
  number decoded this way, so an integer stands for the \<open>float64\<close>.
\<close>

datatype jvalue =
    JNull
  | JBool bool
  | JNumber int
  | JString string
  | JArray "jvalue list"
  | JObject "(string \<times> jvalue) list"

record Artifact =
  Name :: string
  SizeInBytes :: nat
  ArchiveDownloadUrl :: string

record ArtifactList =
  Artifacts_TotalCount :: nat
  Artifacts :: "Artifact list"

record WorkflowRun =
  Id :: nat
  CreatedAt :: string
  HeadBranch :: string
  HeadSha :: string

record WorkflowRunList =
  Runs_TotalCount :: nat
  WorkflowRuns :: "WorkflowRun list"

record request =
  Method :: string
  Url :: string
  Header :: "(string \<times> string) list"

text \<open>A response: its status code and its body; \<open>Inl e\<close> is a body whose reading fails.\<close>

record response =
  StatusCode :: nat
  Body :: "error + string"

section \<open>The file system and the process state\<close>

text \<open>
  A path of the model file system is the list of its components from the root. A node is
  a directory or a regular file, with its permission bits (the low bits of Go's
  \<open>os.FileMode\<close>) and, for a file, its content. There are no symbolic links and the
  kernel enforces no permissions.
\<close>

type_synonym path = "string list"

datatype node = Dir "32 word" | File "32 word" string

text \<open>
  The state a run of the launcher acts on: the HTTP requests handed to the transport so
  far (oldest first), the file system, the working directory, the lines the launcher
  itself has printed on standard output, and the commands it has run.
\<close>

record world =
  sent :: "request list"
  files :: "path \<rightharpoonup> node"
  cwd :: path
  stdout :: "string list"
  ran :: "(string \<times> string list) list"

section \<open>The environment\<close>

text \<open>
  Everything the sources take from outside the repository: the platform constants of
  package \<open>runtime\<close>, the process environment and arguments, the package variable
  \<open>Debug\<close> as \<open>init\<close> and \<open>NewLauncher\<close> leave it, the HTTP transport (its answer may
  depend on the requests made before), the decoders of \<open>encoding/json\<close>, the reader of
  \<open>archive/zip\<close>, and the parts of the repository that are not among its sources here
  (the configuration parser, the build constants).
\<close>

record zip_entry =
  entry_Name :: string
  entry_Mode :: "32 word"
  entry_Open :: "error + (string \<times> error option)"

record Config =
  GitHub_AccessToken :: string

record env =
  GOOS :: string
  GOARCH :: string
  Debug :: bool
  Args :: "string list"
  LookupEnv :: "string \<rightharpoonup> string"
  homedir_Dir :: "error + string"
  Getwd_error :: "error option"
  umask :: "32 word"
  url_Parse_error :: "string \<rightharpoonup> error"
  Client_Do :: "request list \<Rightarrow> request \<Rightarrow> error + response"
  Decode_map :: "string \<Rightarrow> error + (string \<rightharpoonup> jvalue)"
  Unmarshal_map :: "string \<Rightarrow> error + (string \<rightharpoonup> jvalue)"
  Unmarshal_ArtifactList :: "string \<Rightarrow> ArtifactList"
  Unmarshal_WorkflowRunList :: "string \<Rightarrow> WorkflowRunList"
  zip_OpenReader :: "string \<Rightarrow> error + zip_entry list"
  parseConfig_reader :: "error + string \<Rightarrow> error + Config"
  cmd_Run :: "string \<Rightarrow> string list \<Rightarrow> error option"
  build_Version :: string
  build_GitCommit :: string

section \<open>core/github.go\<close>

text \<open>
  \<open>ReleaseRef = regexp.MustCompile(`^\d{2}\.\d{2}\.\d{2}.*$`)\<close>, matched against the
  bytes of the branch. Without flags \<open>.\<close> does not match a newline and \<open>$\<close> matches
  only at the end of the text, so the suffix is any text without a newline.
\<close>

definition isDigit :: "char \<Rightarrow> bool" where
  "isDigit c = (c \<in> set ''0123456789'')"

fun ReleaseRef :: "string \<Rightarrow> bool" where
  "ReleaseRef (a # b # c # d # e # f # g # h # rest) =
     (isDigit a \<and> isDigit b \<and> c = CHR ''.'' \<and> isDigit d \<and> isDigit e \<and> f = CHR ''.''
      \<and> isDigit g \<and> isDigit h \<and> CHR 0x0A \<notin> set rest)"
| "ReleaseRef _ = False"

text \<open>\<open>http.NewRequest(method, url, nil)\<close> fails when the URL does not parse.\<close>

definition NewRequest :: "env \<Rightarrow> string \<Rightarrow> string \<Rightarrow> error + request" where
  "NewRequest E m u =
     (case url_Parse_error E u of
        Some e \<Rightarrow> Inl e
      | None \<Rightarrow> Inr \<lparr>Method = m, Url = u, Header = []\<rparr>)"

text \<open>
  \<open>result["message"].(string)\<close> and \<open>result["sha"].(string)\<close>: an unchecked type
  assertion on the value of a key, which is \<open>nil\<close> when the key is absent.
\<close>

definition assert_string :: "(string \<rightharpoonup> jvalue) \<Rightarrow> string \<Rightarrow> string result" where
  "assert_string m k =
     (case m k of
        Some (JString s) \<Rightarrow> Ok s
      | _ \<Rightarrow> Panic ''interface conversion: interface {} is not string'')"

definition getResponseError :: "env \<Rightarrow> response \<Rightarrow> unit result" where
  "getResponseError E resp =
     (if StatusCode resp \<noteq> 200 then
        (case Body resp of
           Inl e \<Rightarrow> Err (Wrapped ''decode'' e)
         | Inr b \<Rightarrow>
            (case Decode_map E b of
               Inl e \<Rightarrow> Err (Wrapped ''decode'' e)
             | Inr m \<Rightarrow>
                (case assert_string m ''message'' of
                   Ok s \<Rightarrow> Err (ErrorString s)
                 | Err e \<Rightarrow> Err e
                 | Panic p \<Rightarrow> Panic p)))
      else Ok ())"

definition doGet :: "env \<Rightarrow> string \<Rightarrow> world \<Rightarrow> string result \<times> world" where
  "doGet E url w =
     (case NewRequest E ''GET'' url of
        Inl e \<Rightarrow> (Err e, w)
      | Inr req0 \<Rightarrow>
         (let req = req0\<lparr>Header := Header req0 @ [(''Accept'', ''application/vnd.github.v3+json'')]\<rparr>;
              w' = w\<lparr>sent := sent w @ [req]\<rparr>
          in case Client_Do E (sent w) req of
               Inl e \<Rightarrow> (Err e, w')
             | Inr resp \<Rightarrow>
                (case getResponseError E resp of
                   Err e \<Rightarrow> (Err e, w')
                 | Panic p \<Rightarrow> (Panic p, w')
                 | Ok u \<Rightarrow>
                    (case Body resp of
                       Inl e \<Rightarrow> (Err e, w')
                     | Inr body \<Rightarrow> (Ok body, w')))))"

definition commits_url :: "string \<Rightarrow> string" where
  "commits_url branch =
     ''https://api.github.com/repos/opendexnetwork/opendex-docker/commits/'' @ branch"

definition GetHeadCommit :: "env \<Rightarrow> string \<Rightarrow> world \<Rightarrow> string result \<times> world" where
  "GetHeadCommit E branch w =
     (case doGet E (commits_url branch) w of
        (Err e, w') \<Rightarrow> (Err e, w')
      | (Panic p, w') \<Rightarrow> (Panic p, w')
      | (Ok body, w') \<Rightarrow>
         (case Unmarshal_map E body of
            Inl e \<Rightarrow> (Err e, w')
          | Inr m \<Rightarrow> (assert_string m ''sha'', w')))"

text \<open>\<open>%d\<close> of a \<open>uint\<close>.\<close>

function decimal :: "nat \<Rightarrow> string" where
  "decimal n =
     (if n < 10 then [''0123456789'' ! n]
      else decimal (n div 10) @ [''0123456789'' ! (n mod 10)])"
  by pat_completeness auto
termination
  by (relation "measure id") auto

declare decimal.simps [simp del]

definition artifacts_url :: "nat \<Rightarrow> string" where
  "artifacts_url runId =
     ''https://api.github.com/repos/opendexnetwork/opendex-docker/actions/runs/''
       @ decimal runId @ ''/artifacts''"

text \<open>
  The loop of \<open>getWorkflowDownloadUrl\<close> over \<open>result.Artifacts\<close>; the name it looks for
  is \<open>fmt.Sprintf("%s-amd64", runtime.GOOS)\<close>.
\<close>

fun getWorkflowDownloadUrl_loop :: "env \<Rightarrow> Artifact list \<Rightarrow> string result" where
  "getWorkflowDownloadUrl_loop E [] = Err ErrNotFound"
| "getWorkflowDownloadUrl_loop E (artifact # rest) =
     (let name = GOOS E @ ''-amd64''
      in if name = Name artifact then Ok (ArchiveDownloadUrl artifact)
         else getWorkflowDownloadUrl_loop E rest)"

definition getWorkflowDownloadUrl :: "env \<Rightarrow> nat \<Rightarrow> world \<Rightarrow> string result \<times> world" where
  "getWorkflowDownloadUrl E runId w =
     (case doGet E (artifacts_url runId) w of
        (Err e, w') \<Rightarrow> (Err e, w')
      | (Panic p, w') \<Rightarrow> (Panic p, w')
      | (Ok body, w') \<Rightarrow>
         (getWorkflowDownloadUrl_loop E (Artifacts (Unmarshal_ArtifactList E body)), w'))"

definition runs_url :: "string \<Rightarrow> string" where
  "runs_url branch =
     ''https://api.github.com/repos/opendexnetwork/opendex-docker/actions/workflows/build.yml/runs?branch=''
       @ branch"

definition getLastRunOfBranch ::
  "env \<Rightarrow> string \<Rightarrow> string \<Rightarrow> world \<Rightarrow> WorkflowRun result \<times> world" where
  "getLastRunOfBranch E branch commit w =
     (case doGet E (runs_url branch) w of
        (Err e, w') \<Rightarrow> (Err e, w')
      | (Panic p, w') \<Rightarrow> (Panic p, w')
      | (Ok body, w') \<Rightarrow>
         (case WorkflowRuns (Unmarshal_WorkflowRunList E body) of
            [] \<Rightarrow> (Err ErrNotFound, w')
          | run # others \<Rightarrow>
             (if HeadSha run \<noteq> commit then (Err ErrNotFound, w') else (Ok run, w'))))"

definition release_url :: "env \<Rightarrow> string \<Rightarrow> string" where
  "release_url E branch =
     ''https://github.com/opendexnetwork/opendex-docker/releases/download/'' @ branch
       @ ''/launcher-'' @ GOOS E @ ''-'' @ GOARCH E @ ''.zip''"

definition no_build_message :: "string \<Rightarrow> string \<Rightarrow> string" where
  "no_build_message commit branch =
     ''no launcher build for commit '' @ commit @ '' (The branch '' @ [CHR 0x22] @ branch
       @ [CHR 0x22] @ '' does not have a binary launcher)''"

text \<open>
  \<open>t.Logger.Debugf\<close> writes through logrus, whose standard logger is at level Info:
  it prints nothing, and the model leaves it out.
\<close>

definition getDownloadUrl :: "env \<Rightarrow> string \<Rightarrow> string \<Rightarrow> world \<Rightarrow> string result \<times> world" where
  "getDownloadUrl E branch commit w =
     (if ReleaseRef branch then (Ok (release_url E branch), w)
      else
        (case getLastRunOfBranch E branch commit w of
           (Err e, w') \<Rightarrow>
             (if errors_Is_ErrNotFound e
              then (Err (ErrorString (no_build_message commit branch)), w')
              else (Err e, w'))
         | (Panic p, w') \<Rightarrow> (Panic p, w')
         | (Ok run, w') \<Rightarrow>
            (case getWorkflowDownloadUrl E (Id run) w' of
               (Err e, w'') \<Rightarrow> (Ok [], w'')
             | (Panic p, w'') \<Rightarrow> (Panic p, w'')
             | (Ok url, w'') \<Rightarrow> (Ok url, w''))))"

section \<open>Paths and system calls\<close>

text \<open>
  Package \<open>path/filepath\<close> for the separator \<open>/\<close> (linux and darwin; under
  windows the separator and the volume names differ, which nothing below depends on).
\<close>

fun split_slash :: "string \<Rightarrow> string list" where
  "split_slash [] = [[]]"
| "split_slash (c # cs) =
     (if c = CHR ''/'' then [] # split_slash cs
      else (case split_slash cs of
              [] \<Rightarrow> [[c]]
            | x # xs \<Rightarrow> (c # x) # xs))"

fun join_slash :: "string list \<Rightarrow> string" where
  "join_slash [] = []"
| "join_slash [x] = x"
| "join_slash (x # y # ys) = x @ ''/'' @ join_slash (y # ys)"

definition Clean_step :: "bool \<Rightarrow> string list \<Rightarrow> string \<Rightarrow> string list" where
  "Clean_step rooted out c =
     (if c = [] \<or> c = ''.'' then out
      else if c = ''..'' then
        (if out \<noteq> [] \<and> last out \<noteq> ''..'' then butlast out
         else if rooted then out
         else out @ [''..''])
      else out @ [c])"

definition filepath_Clean :: "string \<Rightarrow> string" where
  "filepath_Clean p =
     (if p = [] then ''.''
      else
        (let rooted = (hd p = CHR ''/'');
             out = foldl (Clean_step rooted) [] (split_slash p)
         in if rooted then ''/'' @ join_slash out
            else if out = [] then ''.''
            else join_slash out))"

definition filepath_Join :: "string list \<Rightarrow> string" where
  "filepath_Join elem =
     (case dropWhile (\<lambda>e. e = []) elem of
        [] \<Rightarrow> []
      | e # es \<Rightarrow> filepath_Clean (join_slash (e # es)))"

definition filepath_Dir :: "string \<Rightarrow> string" where
  "filepath_Dir p = filepath_Clean (rev (dropWhile (\<lambda>c. c \<noteq> CHR ''/'') (rev p)))"

text \<open>
  Path resolution by the kernel: from the root or the working directory, one component
  at a time; every component but the last has to be an existing directory. The root is
  always a directory and is its own parent.
\<close>

definition node_at :: "(path \<rightharpoonup> node) \<Rightarrow> path \<Rightarrow> node option" where
  "node_at fs p = (if p = [] then Some (Dir 493) else fs p)"

fun walk :: "(path \<rightharpoonup> node) \<Rightarrow> path \<Rightarrow> string list \<Rightarrow> errno + path" where
  "walk fs d [] = Inr d"
| "walk fs d (c # cs) =
     (case node_at fs d of
        None \<Rightarrow> Inl ENOENT
      | Some (File m x) \<Rightarrow> Inl ENOTDIR
      | Some (Dir m) \<Rightarrow>
         (if c = [] \<or> c = ''.'' then walk fs d cs
          else if c = ''..'' then walk fs (butlast d) cs
          else walk fs (d @ [c]) cs))"

definition resolve :: "world \<Rightarrow> string \<Rightarrow> errno + path" where
  "resolve w p =
     (if p = [] then Inl ENOENT
      else if hd p = CHR ''/'' then walk (files w) [] (split_slash p)
      else walk (files w) (cwd w) (split_slash p))"

text \<open>\<open>os.Stat\<close>; the result stands for the \<open>FileInfo\<close>.\<close>

definition os_Stat :: "world \<Rightarrow> string \<Rightarrow> error + node" where
  "os_Stat w p =
     (case resolve w p of
        Inl n \<Rightarrow> Inl (PathError ''stat'' p n)
      | Inr q \<Rightarrow>
         (case node_at (files w) q of
            None \<Rightarrow> Inl (PathError ''stat'' p ENOENT)
          | Some nd \<Rightarrow> Inr nd))"

text \<open>\<open>info.Mode()\<close>: the permission bits, with \<open>os.ModeDir = 1 << 31\<close> for a directory.\<close>

fun Mode :: "node \<Rightarrow> 32 word" where
  "Mode (Dir m) = 2147483648 OR m"
| "Mode (File m x) = m"

fun IsDir_info :: "node \<Rightarrow> bool" where
  "IsDir_info (Dir m) = True"
| "IsDir_info (File m x) = False"

text \<open>\<open>os.IsNotExist\<close>.\<close>

fun os_IsNotExist :: "error \<Rightarrow> bool" where
  "os_IsNotExist (PathError op p n) = (n = ENOENT)"
| "os_IsNotExist _ = False"

text \<open>
  \<open>os.Mkdir\<close>: the last component must not exist; trailing separators are ignored.
  The new directory gets the permission bits of \<open>perm\<close> that the umask leaves.
\<close>

definition os_Mkdir :: "env \<Rightarrow> world \<Rightarrow> string \<Rightarrow> 32 word \<Rightarrow> error + world" where
  "os_Mkdir E w p perm =
     (if p = [] then Inl (PathError ''mkdir'' p ENOENT)
      else
        (case walk (files w) (if hd p = CHR ''/'' then [] else cwd w)
                (rev (dropWhile (\<lambda>c. c = []) (rev (split_slash p)))) of
           Inl n \<Rightarrow> Inl (PathError ''mkdir'' p n)
         | Inr q \<Rightarrow>
            (case node_at (files w) q of
               Some nd \<Rightarrow> Inl (PathError ''mkdir'' p EEXIST)
             | None \<Rightarrow> Inr (w\<lparr>files := (files w)(q \<mapsto> Dir (perm AND 511 AND NOT (umask E)))\<rparr>))))"

text \<open>
  \<open>os.MkdirAll\<close>: creates every missing directory on the way; an existing directory is
  no error, a regular file on the way is.
\<close>

fun MkdirAll_walk ::
  "32 word \<Rightarrow> (path \<rightharpoonup> node) \<Rightarrow> path \<Rightarrow> string list \<Rightarrow> errno + (path \<rightharpoonup> node)" where
  "MkdirAll_walk m fs d [] = Inr fs"
| "MkdirAll_walk m fs d (c # cs) =
     (if c = [] \<or> c = ''.'' then MkdirAll_walk m fs d cs
      else if c = ''..'' then MkdirAll_walk m fs (butlast d) cs
      else
        (case node_at fs (d @ [c]) of
           None \<Rightarrow> MkdirAll_walk m (fs(d @ [c] \<mapsto> Dir m)) (d @ [c]) cs
         | Some (Dir m') \<Rightarrow> MkdirAll_walk m fs (d @ [c]) cs
         | Some (File m' x) \<Rightarrow> Inl ENOTDIR))"

definition os_MkdirAll :: "env \<Rightarrow> world \<Rightarrow> string \<Rightarrow> 32 word \<Rightarrow> error + world" where
  "os_MkdirAll E w p perm =
     (if p = [] then Inl (PathError ''mkdir'' p ENOENT)
      else
        (case MkdirAll_walk (perm AND 511 AND NOT (umask E)) (files w)
                (if hd p = CHR ''/'' then [] else cwd w) (split_slash p) of
           Inl n \<Rightarrow> Inl (PathError ''mkdir'' p n)
         | Inr fs' \<Rightarrow> Inr (w\<lparr>files := fs'\<rparr>)))"

text \<open>\<open>os.Chmod\<close> sets the permission bits of an existing node.\<close>

definition os_Chmod :: "world \<Rightarrow> string \<Rightarrow> 32 word \<Rightarrow> error + world" where
  "os_Chmod w p perm =
     (case resolve w p of
        Inl n \<Rightarrow> Inl (PathError ''chmod'' p n)
      | Inr q \<Rightarrow>
         (case node_at (files w) q of
            None \<Rightarrow> Inl (PathError ''chmod'' p ENOENT)
          | Some (Dir m) \<Rightarrow> Inr (w\<lparr>files := (files w)(q \<mapsto> Dir (perm AND 511))\<rparr>)
          | Some (File m x) \<Rightarrow> Inr (w\<lparr>files := (files w)(q \<mapsto> File (perm AND 511) x)\<rparr>)))"

definition os_Chdir :: "world \<Rightarrow> string \<Rightarrow> error + world" where
  "os_Chdir w p =
     (case resolve w p of
        Inl n \<Rightarrow> Inl (PathError ''chdir'' p n)
      | Inr q \<Rightarrow>
         (case node_at (files w) q of
            None \<Rightarrow> Inl (PathError ''chdir'' p ENOENT)
          | Some (File m x) \<Rightarrow> Inl (PathError ''chdir'' p ENOTDIR)
          | Some (Dir m) \<Rightarrow> Inr (w\<lparr>cwd := q\<rparr>)))"

definition os_Getwd :: "env \<Rightarrow> world \<Rightarrow> error + string" where
  "os_Getwd E w =
     (case Getwd_error E of
        Some e \<Rightarrow> Inl e
      | None \<Rightarrow> Inr (''/'' @ join_slash (cwd w)))"

text \<open>
  \<open>os.OpenFile\<close> with \<open>O_CREATE|O_TRUNC\<close> for writing, followed by the bytes written
  before the file is closed: an existing file is emptied and keeps its mode, a missing
  one is created with the permission bits of \<open>perm\<close> that the umask leaves.
\<close>

definition os_OpenFile_trunc :: "env \<Rightarrow> world \<Rightarrow> string \<Rightarrow> 32 word \<Rightarrow> error + path \<times> world" where
  "os_OpenFile_trunc E w p perm =
     (case resolve w p of
        Inl n \<Rightarrow> Inl (PathError ''open'' p n)
      | Inr q \<Rightarrow>
         (case node_at (files w) q of
            Some (Dir m) \<Rightarrow> Inl (PathError ''open'' p EISDIR)
          | Some (File m x) \<Rightarrow> Inr (q, w\<lparr>files := (files w)(q \<mapsto> File m [])\<rparr>)
          | None \<Rightarrow> Inr (q, w\<lparr>files := (files w)(q \<mapsto> File (perm AND 511 AND NOT (umask E)) [])\<rparr>)))"

definition write_file :: "world \<Rightarrow> path \<Rightarrow> string \<Rightarrow> world" where
  "write_file w q bytes =
     (case files w q of
        Some (File m x) \<Rightarrow> w\<lparr>files := (files w)(q \<mapsto> File m (x @ bytes))\<rparr>
      | _ \<Rightarrow> w)"

text \<open>
  \<open>os.Open\<close> (for reading; a directory opens too) and reading all of the opened
  file, which fails on a directory.
\<close>

definition os_Open :: "world \<Rightarrow> string \<Rightarrow> error + node" where
  "os_Open w p =
     (case resolve w p of
        Inl n \<Rightarrow> Inl (PathError ''open'' p n)
      | Inr q \<Rightarrow>
         (case node_at (files w) q of
            None \<Rightarrow> Inl (PathError ''open'' p ENOENT)
          | Some nd \<Rightarrow> Inr nd))"

fun read_all :: "string \<Rightarrow> node \<Rightarrow> error + string" where
  "read_all p (Dir m) = Inl (PathError ''read'' p EISDIR)"
| "read_all p (File m x) = Inr x"

section \<open>utils/file.go\<close>

definition UserWritable :: "32 word" where
  "UserWritable = push_bit 7 1"

definition UserExecutable :: "32 word" where
  "UserExecutable = push_bit 6 1"

definition FileExists :: "world \<Rightarrow> string \<Rightarrow> bool result" where
  "FileExists w p =
     (case os_Stat w p of
        Inr info \<Rightarrow> Ok True
      | Inl err \<Rightarrow> (if os_IsNotExist err then Ok False else Err err))"

definition IsDir :: "world \<Rightarrow> string \<Rightarrow> bool result" where
  "IsDir w p =
     (case os_Stat w p of
        Inl err \<Rightarrow> Err err
      | Inr info \<Rightarrow> Ok (IsDir_info info))"

definition IsWritable :: "world \<Rightarrow> string \<Rightarrow> bool result" where
  "IsWritable w p =
     (case os_Stat w p of
        Inl err \<Rightarrow> Err err
      | Inr info \<Rightarrow> (if Mode info AND UserWritable = 0 then Ok False else Ok True))"

definition IsExecutable :: "world \<Rightarrow> string \<Rightarrow> bool result" where
  "IsExecutable w p =
     (case os_Stat w p of
        Inl err \<Rightarrow> Err err
      | Inr info \<Rightarrow> (if Mode info AND UserExecutable = 0 then Ok False else Ok True))"

section \<open>core/github.go, the part that writes files\<close>

record GithubClient =
  AccessToken :: string

definition ensureCommitDir :: "env \<Rightarrow> string \<Rightarrow> string \<Rightarrow> world \<Rightarrow> string result \<times> world" where
  "ensureCommitDir E commit launcherVersionsDir w =
     (let commitDir = filepath_Join [launcherVersionsDir, commit]
      in case FileExists w commitDir of
           Err e \<Rightarrow> (Err e, w)
         | Panic p \<Rightarrow> (Panic p, w)
         | Ok exists \<Rightarrow>
            (if \<not> exists then
               (case os_Mkdir E w commitDir 493 of
                  Inl e \<Rightarrow> (Err e, w)
                | Inr w' \<Rightarrow> (Ok commitDir, w'))
             else (Ok commitDir, w)))"

text \<open>
  \<open>downloadFile\<close>: one request with the token in the \<open>Authorization\<close> header; a
  status other than 200 gives the body as the error text; otherwise the file is created
  (mode 0666 before the umask) and the body copied into it.
\<close>

definition downloadFile ::
  "env \<Rightarrow> GithubClient \<Rightarrow> string \<Rightarrow> string \<Rightarrow> world \<Rightarrow> unit result \<times> world" where
  "downloadFile E t url file w =
     (case NewRequest E ''GET'' url of
        Inl e \<Rightarrow> (Err (Wrapped ''new request'' e), w)
      | Inr req0 \<Rightarrow>
         (let req = req0\<lparr>Header := Header req0 @ [(''Authorization'', ''token '' @ AccessToken t)]\<rparr>;
              w1 = w\<lparr>sent := sent w @ [req]\<rparr>
          in case Client_Do E (sent w) req of
               Inl e \<Rightarrow> (Err (Wrapped ''do request'' e), w1)
             | Inr resp \<Rightarrow>
                (if StatusCode resp \<noteq> 200 then
                   (case Body resp of
                      Inl e \<Rightarrow> (Err (Wrapped ''read all'' e), w1)
                    | Inr body \<Rightarrow> (Err (ErrorString body), w1))
                 else
                   (case os_OpenFile_trunc E w1 file 438 of
                      Inl e \<Rightarrow> (Err (Wrapped ''create'' e), w1)
                    | Inr (q, w2) \<Rightarrow>
                       (case Body resp of
                          Inl e \<Rightarrow> (Err (Wrapped ''copy'' e), w2)
                        | Inr body \<Rightarrow> (Ok (), write_file w2 q body))))))"

text \<open>
  The loop of \<open>unzip\<close> over \<open>r.File\<close>. \<open>fpath\<close> is the entry's name as the archive
  records it, used relative to the working directory. \<open>entry_Mode\<close> is \<open>f.Mode()\<close>
  (a directory entry has \<open>os.ModeDir\<close> in it), \<open>entry_Open\<close> is what \<open>f.Open\<close> and
  the copy of its bytes give: \<open>Inl\<close> when the entry does not open, else the bytes
  copied and the error that ended the copy, if any.
\<close>

definition entry_IsDir :: "zip_entry \<Rightarrow> bool" where
  "entry_IsDir f = (entry_Mode f AND 2147483648 \<noteq> 0)"

fun unzip_loop :: "env \<Rightarrow> zip_entry list \<Rightarrow> world \<Rightarrow> unit result \<times> world" where
  "unzip_loop E [] w = (Ok (), w)"
| "unzip_loop E (f # fs) w =
     (let fpath = entry_Name f
      in if entry_IsDir f then
           (case os_MkdirAll E w fpath 511 of
              Inl e \<Rightarrow> unzip_loop E fs w
            | Inr w1 \<Rightarrow> unzip_loop E fs w1)
         else
           (case os_MkdirAll E w (filepath_Dir fpath) 511 of
              Inl e \<Rightarrow> (Err (Wrapped ''mkdir all'' e), w)
            | Inr w1 \<Rightarrow>
               (case os_OpenFile_trunc E w1 fpath (entry_Mode f) of
                  Inl e \<Rightarrow> (Err (Wrapped ''open file'' e), w1)
                | Inr (q, w2) \<Rightarrow>
                   (case entry_Open f of
                      Inl e \<Rightarrow> (Err (Wrapped ''open'' e), w2)
                    | Inr (bytes, cerr) \<Rightarrow>
                       (let w3 = write_file w2 q bytes
                        in case cerr of
                             Some e \<Rightarrow> (Err (Wrapped ''copy'' e), w3)
                           | None \<Rightarrow> unzip_loop E fs w3)))))"

definition unzip :: "env \<Rightarrow> string \<Rightarrow> world \<Rightarrow> unit result \<times> world" where
  "unzip E file w =
     (case os_Open w file of
        Inl e \<Rightarrow> (Err (Wrapped ''open reader'' e), w)
      | Inr nd \<Rightarrow>
         (case read_all file nd of
            Inl e \<Rightarrow> (Err (Wrapped ''open reader'' e), w)
          | Inr bytes \<Rightarrow>
             (case zip_OpenReader E bytes of
                Inl e \<Rightarrow> (Err (Wrapped ''open reader'' e), w)
              | Inr entries \<Rightarrow> unzip_loop E entries w)))"

text \<open>\<open>defer os.Chdir(wd)\<close>: back to the directory recorded at entry, its error dropped.\<close>

definition deferred_Chdir :: "string \<Rightarrow> world \<Rightarrow> world" where
  "deferred_Chdir wd w = (case os_Chdir w wd of Inl e \<Rightarrow> w | Inr w' \<Rightarrow> w')"

definition downloadLauncher ::
  "env \<Rightarrow> GithubClient \<Rightarrow> string \<Rightarrow> string \<Rightarrow> string \<Rightarrow> world \<Rightarrow> unit result \<times> world" where
  "downloadLauncher E t url commit commitDir w =
     (case os_Getwd E w of
        Inl e \<Rightarrow> (Err e, w)
      | Inr wd \<Rightarrow>
         (case os_Chdir w commitDir of
            Inl e \<Rightarrow> (Err e, w)
          | Inr w1 \<Rightarrow>
             (case downloadFile E t url ''launcher.zip'' w1 of
                (Err e, w2) \<Rightarrow> (Err e, deferred_Chdir wd w2)
              | (Panic p, w2) \<Rightarrow> (Panic p, deferred_Chdir wd w2)
              | (Ok u, w2) \<Rightarrow>
                 (case unzip E ''launcher.zip'' w2 of
                    (Err e, w3) \<Rightarrow> (Err e, deferred_Chdir wd w3)
                  | (Panic p, w3) \<Rightarrow> (Panic p, deferred_Chdir wd w3)
                  | (Ok u', w3) \<Rightarrow> (Ok (), deferred_Chdir wd w3)))))"

definition print_if_Debug :: "env \<Rightarrow> string \<Rightarrow> world \<Rightarrow> world" where
  "print_if_Debug E line w = (if Debug E then w\<lparr>stdout := stdout w @ [line]\<rparr> else w)"

definition DownloadLatestBinary ::
  "env \<Rightarrow> GithubClient \<Rightarrow> string \<Rightarrow> string \<Rightarrow> string \<Rightarrow> world \<Rightarrow> unit result \<times> world" where
  "DownloadLatestBinary E t branch commit launcherVersionsDir w =
     (case getDownloadUrl E branch commit w of
        (Err e, w1) \<Rightarrow> (Err e, w1)
      | (Panic p, w1) \<Rightarrow> (Panic p, w1)
      | (Ok url, w1) \<Rightarrow>
         (let w2 = print_if_Debug E (''Download: '' @ url) w1
          in case ensureCommitDir E commit launcherVersionsDir w2 of
               (Err e, w3) \<Rightarrow> (Err e, w3)
             | (Panic p, w3) \<Rightarrow> (Panic p, w3)
             | (Ok commitDir, w3) \<Rightarrow> downloadLauncher E t url commit commitDir w3))"

section \<open>core/launcher.go\<close>

text \<open>
  The fields of \<open>Launcher\<close> that \<open>Start\<close> reads or writes; \<open>NewLauncher\<close> returns
  the zero value, in which \<open>config\<close> and \<open>github\<close> are nil.
\<close>

record Launcher =
  network :: string
  branch :: string
  homeDir :: string
  networkDir :: string
  launcherDir :: string
  launcherVersionsDir :: string
  configFile :: string
  config :: "Config option"
  github :: "GithubClient option"

definition NewLauncher :: Launcher where
  "NewLauncher =
     \<lparr>network = [], branch = [], homeDir = [], networkDir = [], launcherDir = [],
      launcherVersionsDir = [], configFile = [], config = None, github = None\<rparr>"

definition DefaultConfigFilename :: string where
  "DefaultConfigFilename = ''opendex-docker.conf''"

definition getHomeDir :: "env \<Rightarrow> string result" where
  "getHomeDir E =
     (case homedir_Dir E of
        Inl err \<Rightarrow> Panic (Error err)
      | Inr home \<Rightarrow>
         (if GOOS E = ''linux'' then Ok (filepath_Join [home, ''.opendex-docker''])
          else if GOOS E = ''darwin'' then
            Ok (filepath_Join [home, ''Library'', ''Application Support'', ''OpendexDocker''])
          else if GOOS E = ''windows'' then
            Ok (filepath_Join [home, ''AppData'', ''Local'', ''OpendexDocker''])
          else Err (ErrorString (''unsupported platform: '' @ GOOS E))))"

definition getNetwork :: "env \<Rightarrow> string" where
  "getNetwork E = (case LookupEnv E ''NETWORK'' of Some v \<Rightarrow> v | None \<Rightarrow> ''mainnet'')"

definition getBranch :: "env \<Rightarrow> string" where
  "getBranch E = (case LookupEnv E ''BRANCH'' of Some v \<Rightarrow> v | None \<Rightarrow> ''master'')"

definition checkDir :: "env \<Rightarrow> string \<Rightarrow> world \<Rightarrow> unit result \<times> world" where
  "checkDir E p w =
     (case FileExists w p of
        Err e \<Rightarrow> (Err e, w)
      | Panic x \<Rightarrow> (Panic x, w)
      | Ok exists \<Rightarrow>
         (case (if \<not> exists then os_Mkdir E w p 493 else Inr w) of
            Inl e \<Rightarrow> (Err e, w)
          | Inr w1 \<Rightarrow>
             (case IsDir w1 p of
                Err e \<Rightarrow> (Err e, w1)
              | Panic x \<Rightarrow> (Panic x, w1)
              | Ok dir \<Rightarrow>
                 (if \<not> dir then (Err (ErrorString (''not a folder: '' @ p)), w1)
                  else
                    (case IsWritable w1 p of
                       Err e \<Rightarrow> (Err e, w1)
                     | Panic x \<Rightarrow> (Panic x, w1)
                     | Ok writable \<Rightarrow>
                        (if \<not> writable then (Err (ErrorString (''not writable: '' @ p)), w1)
                         else (Ok (), w1)))))))"

definition ensureHomeDir :: "env \<Rightarrow> Launcher \<Rightarrow> world \<Rightarrow> unit result \<times> Launcher \<times> world" where
  "ensureHomeDir E t w =
     (case getHomeDir E of
        Err e \<Rightarrow> (Err e, t, w)
      | Panic x \<Rightarrow> (Panic x, t, w)
      | Ok home \<Rightarrow>
         (case checkDir E home w of
            (Err e, w1) \<Rightarrow> (Err e, t, w1)
          | (Panic x, w1) \<Rightarrow> (Panic x, t, w1)
          | (Ok u, w1) \<Rightarrow> (Ok (), t\<lparr>homeDir := home\<rparr>, w1)))"

definition ensureNetworkDir :: "env \<Rightarrow> Launcher \<Rightarrow> world \<Rightarrow> unit result \<times> Launcher \<times> world" where
  "ensureNetworkDir E t w =
     (if homeDir t = [] then (Err ErrHomeDirEmpty, t, w)
      else if network t = [] then (Err ErrNetworkEmpty, t, w)
      else
        (let nd = filepath_Join [homeDir t, network t]
         in case checkDir E nd w of
              (Err e, w1) \<Rightarrow> (Err e, t, w1)
            | (Panic x, w1) \<Rightarrow> (Panic x, t, w1)
            | (Ok u, w1) \<Rightarrow> (Ok (), t\<lparr>networkDir := nd\<rparr>, w1)))"

definition ensureLauncherDir :: "env \<Rightarrow> Launcher \<Rightarrow> world \<Rightarrow> unit result \<times> Launcher \<times> world" where
  "ensureLauncherDir E t w =
     (if homeDir t = [] then (Err ErrHomeDirEmpty, t, w)
      else
        (let ld = filepath_Join [homeDir t, ''launcher'']
         in case checkDir E ld w of
              (Err e, w1) \<Rightarrow> (Err e, t, w1)
            | (Panic x, w1) \<Rightarrow> (Panic x, t, w1)
            | (Ok u, w1) \<Rightarrow>
               (let t1 = t\<lparr>launcherDir := ld\<rparr>;
                    vd = filepath_Join [ld, ''versions'']
                in case checkDir E vd w1 of
                     (Err e, w2) \<Rightarrow> (Err e, t1, w2)
                   | (Panic x, w2) \<Rightarrow> (Panic x, t1, w2)
                   | (Ok u', w2) \<Rightarrow> (Ok (), t1\<lparr>launcherVersionsDir := vd\<rparr>, w2))))"

definition ensureDirs :: "env \<Rightarrow> Launcher \<Rightarrow> world \<Rightarrow> unit result \<times> Launcher \<times> world" where
  "ensureDirs E t w =
     (case ensureHomeDir E t w of
        (Err e, t1, w1) \<Rightarrow> (Err e, t1, w1)
      | (Panic x, t1, w1) \<Rightarrow> (Panic x, t1, w1)
      | (Ok u, t1, w1) \<Rightarrow>
         (case ensureLauncherDir E t1 w1 of
            (Err e, t2, w2) \<Rightarrow> (Err e, t2, w2)
          | (Panic x, t2, w2) \<Rightarrow> (Panic x, t2, w2)
          | (Ok u', t2, w2) \<Rightarrow>
             (let t3 = t2\<lparr>network := getNetwork E\<rparr>
              in if network t3 \<noteq> [] then ensureNetworkDir E t3 w2
                 else (Ok (), t3, w2))))"

text \<open>
  \<open>Launcher.parseConfig\<close>. The parser of the configuration file is not among the
  sources: it is the environment's \<open>parseConfig_reader\<close>, applied to what reading
  the opened file gives.
\<close>

definition parseConfig :: "env \<Rightarrow> Launcher \<Rightarrow> world \<Rightarrow> unit result \<times> Launcher" where
  "parseConfig E t w =
     (let t1 = t\<lparr>configFile := filepath_Join [homeDir t, DefaultConfigFilename]\<rparr>
      in case FileExists w (configFile t1) of
           Err e \<Rightarrow> (Err e, t1)
         | Panic x \<Rightarrow> (Panic x, t1)
         | Ok exists \<Rightarrow>
            (if \<not> exists then (Ok (), t1)
             else
               (case os_Open w (configFile t1) of
                  Inl e \<Rightarrow> (Err e, t1)
                | Inr f \<Rightarrow>
                   (case parseConfig_reader E (read_all (configFile t1) f) of
                      Inl e \<Rightarrow> (Err e, t1)
                    | Inr c \<Rightarrow> (Ok (), t1\<lparr>config := Some c\<rparr>)))))"

text \<open>\<open>Launcher.Run\<close>: the command runs with the launcher's own standard streams.\<close>

definition Run :: "env \<Rightarrow> string \<Rightarrow> string list \<Rightarrow> world \<Rightarrow> unit result \<times> world" where
  "Run E name args w =
     (let w1 = w\<lparr>ran := ran w @ [(name, args)]\<rparr>
      in case cmd_Run E name args of
           Some e \<Rightarrow> (Err e, w1)
         | None \<Rightarrow> (Ok (), w1))"

text \<open>
  \<open>Launcher.Start\<close>, in the order of the source, cut into its stages.
  \<open>Start_resolve\<close> is the call of \<open>GetHeadCommit\<close> on the configured branch with
  its error wrapped; \<open>Start_launcher\<close> is the path of the executable in the cache;
  \<open>Start_materialize\<close> is the existence check, the download and the executable
  check on that path; \<open>Start_prepare\<close> is everything up to there, from
  \<open>ensureDirs\<close> on; \<open>Start_run\<close> is the rest: the line that names the
  executable, the version line and the hand-over to the executable.
\<close>

definition Start_resolve :: "env \<Rightarrow> string \<Rightarrow> world \<Rightarrow> string result \<times> world" where
  "Start_resolve E br w =
     (case GetHeadCommit E br w of
        (Err e, w1) \<Rightarrow> (Err (Wrapped ''get branch head'' e), w1)
      | (Panic x, w1) \<Rightarrow> (Panic x, w1)
      | (Ok commit, w1) \<Rightarrow> (Ok commit, w1))"

definition Start_launcher :: "env \<Rightarrow> string \<Rightarrow> string \<Rightarrow> string" where
  "Start_launcher E versionsDir commit =
     (if GOOS E = ''windows'' then filepath_Join [versionsDir, commit, ''launcher.exe'']
      else filepath_Join [versionsDir, commit, ''launcher''])"

definition Start_materialize ::
  "env \<Rightarrow> GithubClient \<Rightarrow> string \<Rightarrow> string \<Rightarrow> string \<Rightarrow> world \<Rightarrow> string result \<times> world" where
  "Start_materialize E gh br versionsDir commit w =
     (let launcher = Start_launcher E versionsDir commit
      in case FileExists w launcher of
           Err e \<Rightarrow> (Err e, w)
         | Panic x \<Rightarrow> (Panic x, w)
         | Ok exists \<Rightarrow>
            (case (if \<not> exists then DownloadLatestBinary E gh br commit versionsDir w
                   else (Ok (), w)) of
               (Err e, w1) \<Rightarrow> (Err e, w1)
             | (Panic x, w1) \<Rightarrow> (Panic x, w1)
             | (Ok u, w1) \<Rightarrow>
                (if GOOS E = ''linux'' \<or> GOOS E = ''darwin'' then
                   (case IsExecutable w1 launcher of
                      Err e \<Rightarrow> (Err e, w1)
                    | Panic x \<Rightarrow> (Panic x, w1)
                    | Ok executable \<Rightarrow>
                       (if \<not> executable then
                          (case os_Chmod w1 launcher 493 of
                             Inl e \<Rightarrow> (Err e, w1)
                           | Inr w2 \<Rightarrow> (Ok launcher, w2))
                        else (Ok launcher, w1)))
                 else (Ok launcher, w1))))"

definition Start_run :: "env \<Rightarrow> string \<Rightarrow> world \<Rightarrow> unit result \<times> world" where
  "Start_run E launcher w =
     (let args = Args E;
          w1 = print_if_Debug E (''Launcher: '' @ launcher) w
      in if length args = 2 \<and> args ! 1 = ''version'' \<and> length (build_GitCommit E) < 7
         then (Panic ''slice bounds out of range'', w1)
         else
           (let w2 = (if length args = 2 \<and> args ! 1 = ''version''
                      then w1\<lparr>stdout := stdout w1 @
                             [''opendex-launcher '' @ build_Version E @ ''-'' @ take 7 (build_GitCommit E)]\<rparr>
                      else w1)
            in if args = [] then (Panic ''slice bounds out of range'', w2)
               else Run E launcher (drop 1 args) w2))"

definition Start_prepare :: "env \<Rightarrow> Launcher \<Rightarrow> world \<Rightarrow> string result \<times> world" where
  "Start_prepare E t w =
     (case ensureDirs E t w of
        (Err e, t1, w1) \<Rightarrow> (Err e, w1)
      | (Panic x, t1, w1) \<Rightarrow> (Panic x, w1)
      | (Ok u, t1, w1) \<Rightarrow>
         (case parseConfig E t1 w1 of
            (Err e, t2) \<Rightarrow> (Err e, w1)
          | (Panic x, t2) \<Rightarrow> (Panic x, w1)
          | (Ok u', t2) \<Rightarrow>
             (case config t2 of
                None \<Rightarrow> (Panic ''invalid memory address or nil pointer dereference'', w1)
              | Some c \<Rightarrow>
                 (let gh = \<lparr>AccessToken = GitHub_AccessToken c\<rparr>;
                      t3 = t2\<lparr>github := Some gh, branch := getBranch E\<rparr>
                  in case Start_resolve E (branch t3) w1 of
                       (Err e, w2) \<Rightarrow> (Err e, w2)
                     | (Panic x, w2) \<Rightarrow> (Panic x, w2)
                     | (Ok commit, w2) \<Rightarrow>
                        (let w3 = print_if_Debug E
                                    (''Branch: '' @ branch t3 @ '' ('' @ commit @ '')'') w2;
                             w4 = print_if_Debug E
                                    (''Network: '' @ network t3 @ '' ('' @ networkDir t3 @ '')'') w3
                         in Start_materialize E gh (branch t3) (launcherVersionsDir t3)
                              commit w4)))))"

definition Start :: "env \<Rightarrow> Launcher \<Rightarrow> world \<Rightarrow> unit result \<times> world" where
  "Start E t w =
     (case Start_prepare E t w of
        (Err e, w1) \<Rightarrow> (Err e, w1)
      | (Panic x, w1) \<Rightarrow> (Panic x, w1)
      | (Ok launcher, w1) \<Rightarrow> Start_run E launcher w1)"

section \<open>main.go\<close>

text \<open>
  \<open>main\<close>: the exit status of the process and the state it leaves. \<open>os.Exit(1)\<close>
  after an error of \<open>Start\<close>, status 0 at the end of \<open>main\<close>, and status 2 when a
  panic ends the process (the Go runtime writes its message to standard error).
\<close>

definition main :: "env \<Rightarrow> world \<Rightarrow> nat \<times> world" where
  "main E w =
     (let launcher = NewLauncher
      in case Start E launcher w of
           (Err err, w1) \<Rightarrow>
             (if Debug E then (1, w1\<lparr>stdout := stdout w1 @ [Error err]\<rparr>) else (1, w1))
         | (Panic x, w1) \<Rightarrow> (2, w1)
         | (Ok u, w1) \<Rightarrow> (0, w1))"

section \<open>Notions used in the statements\<close>

text \<open>The request that \<open>doGet\<close> hands to the transport for a URL.\<close>

definition api_request :: "string \<Rightarrow> request" where
  "api_request u =
     \<lparr>Method = ''GET'', Url = u, Header = [(''Accept'', ''application/vnd.github.v3+json'')]\<rparr>"

text \<open>
  The order of byte strings. GitHub's \<open>created_at\<close> is an RFC 3339 time in UTC of
  fixed width, so a later run has the greater string.
\<close>

fun string_less :: "string \<Rightarrow> string \<Rightarrow> bool" where
  "string_less [] [] = False"
| "string_less [] (y # ys) = True"
| "string_less (x # xs) [] = False"
| "string_less (x # xs) (y # ys) =
     ((of_char x :: nat) < of_char y \<or> (x = y \<and> string_less xs ys))"

section \<open>Example inputs\<close>

definition example_run :: "nat \<Rightarrow> string \<Rightarrow> string \<Rightarrow> WorkflowRun" where
  "example_run i created sha =
     \<lparr>Id = i, CreatedAt = created, HeadBranch = ''master'', HeadSha = sha\<rparr>"

definition example_artifact :: "string \<Rightarrow> string \<Rightarrow> Artifact" where
  "example_artifact n u = \<lparr>Name = n, SizeInBytes = 10, ArchiveDownloadUrl = u\<rparr>"

text \<open>
  A linux machine whose transport answers every request with status 200 and the URL as
  the body, and whose decoders give one commit, one build run of that commit and one
  artifact for the platform.
\<close>

definition example_env :: env where
  "example_env =
     \<lparr>GOOS = ''linux'', GOARCH = ''amd64'', Debug = False,
      Args = [''opendex-launcher''], LookupEnv = Map.empty,
      homedir_Dir = Inr ''/home/u'', Getwd_error = None, umask = 18,
      url_Parse_error = Map.empty,
      Client_Do = (\<lambda>hist req. Inr \<lparr>StatusCode = 200, Body = Inr (Url req)\<rparr>),
      Decode_map = (\<lambda>b. Inr Map.empty),
      Unmarshal_map = (\<lambda>b. Inr [''sha'' \<mapsto> JString ''abc'']),
      Unmarshal_ArtifactList = (\<lambda>b. \<lparr>Artifacts_TotalCount = 1,
         Artifacts = [example_artifact ''linux-amd64'' ''https://dl/7'']\<rparr>),
      Unmarshal_WorkflowRunList = (\<lambda>b. \<lparr>Runs_TotalCount = 1,
         WorkflowRuns = [example_run 7 ''2021-06-03T00:00:00Z'' ''abc'']\<rparr>),
      zip_OpenReader = (\<lambda>b. Inr [\<lparr>entry_Name = ''launcher'', entry_Mode = 420,
         entry_Open = Inr (''ELF'', None)\<rparr>]),
      parseConfig_reader =
        (\<lambda>b. case b of Inl e \<Rightarrow> Inl e | Inr s \<Rightarrow> Inr \<lparr>GitHub_AccessToken = s\<rparr>),
      cmd_Run = (\<lambda>n a. None),
      build_Version = ''1.0.0'', build_GitCommit = ''0123456789abcdef''\<rparr>"

text \<open>
  The same machine when the listing of build runs holds two runs, the one created
  earlier listed first; the argument is the head commit of the later one.
\<close>

definition example_two_runs :: "string \<Rightarrow> env" where
  "example_two_runs sha =
     example_env\<lparr>Unmarshal_WorkflowRunList := (\<lambda>b. \<lparr>Runs_TotalCount = 2,
        WorkflowRuns = [example_run 7 ''2021-06-03T00:00:00Z'' ''abc'',
                        example_run 8 ''2021-06-04T00:00:00Z'' sha]\<rparr>)\<rparr>"

text \<open>A home directory that holds the launcher's directory and a configuration file.\<close>

definition example_world :: world where
  "example_world =
     \<lparr>sent = [],
      files = [[''home''] \<mapsto> Dir 493, [''home'', ''u''] \<mapsto> Dir 493,
        [''home'', ''u'', ''.opendex-docker''] \<mapsto> Dir 493,
        [''home'', ''u'', ''.opendex-docker'', ''opendex-docker.conf''] \<mapsto> File 420 ''tok''],
      cwd = [''home'', ''u''], stdout = [], ran = []\<rparr>"

text \<open>The same machine when the environment variable \<open>BRANCH\<close> names a release.\<close>

definition example_tag_env :: env where
  "example_tag_env = example_env\<lparr>LookupEnv := [''BRANCH'' \<mapsto> ''21.06.03'']\<rparr>"

section \<open>Auxiliary notions and further example inputs\<close>

text \<open>Two nodes of the same kind: both absent, both directories or both files.\<close>

fun same_kind :: "node option \<Rightarrow> node option \<Rightarrow> bool" where
  "same_kind None None = True"
| "same_kind (Some (Dir m)) (Some (Dir m')) = True"
| "same_kind (Some (File m x)) (Some (File m' x')) = True"
| "same_kind _ _ = False"

text \<open>
  The example home directory after \<open>ensureDirs\<close>: the launcher's directory and its
  directory of versions exist; the cache is empty.
\<close>

definition example_ready_world :: world where
  "example_ready_world =
     example_world\<lparr>files := (files example_world)
       ([''home'', ''u'', ''.opendex-docker'', ''launcher''] \<mapsto> Dir 493,
        [''home'', ''u'', ''.opendex-docker'', ''launcher'', ''versions''] \<mapsto> Dir 493)\<rparr>"

definition example_versions_dir :: string where
  "example_versions_dir = ''/home/u/.opendex-docker/launcher/versions''"

definition example_launcher :: string where
  "example_launcher = ''/home/u/.opendex-docker/launcher/versions/abc/launcher''"

section \<open>Properties of the requests\<close>

lemma doGet_Ok:
  "doGet E u w = (Ok body, w') \<longleftrightarrow>
     (url_Parse_error E u = None \<and> w' = w\<lparr>sent := sent w @ [api_request u]\<rparr> \<and>
      (\<exists>resp. Client_Do E (sent w) (api_request u) = Inr resp \<and> StatusCode resp = 200
         \<and> Body resp = Inr body))"
  by (auto simp: doGet_def NewRequest_def api_request_def Let_def getResponseError_def
      assert_string_def split: option.splits sum.splits result.splits jvalue.splits)

lemmas example_defs =
  example_env_def example_world_def example_run_def example_artifact_def

lemmas doGet_defs =
  doGet_def NewRequest_def getResponseError_def api_request_def

text \<open>
  C2. On the branch path (the branch does not match the release pattern and a build run
  of the commit was found), a failure of the artifact lookup for that run, whatever the
  error, makes \<open>getDownloadUrl\<close> return the empty URL with a nil error. The witness is
  the case in which no artifact has the platform's name.
\<close>

theorem getDownloadUrl_swallows_artifact_error:
  assumes "\<not> ReleaseRef br"
    and "getLastRunOfBranch E br commit w = (Ok run, w1)"
    and "getWorkflowDownloadUrl E (Id run) w1 = (Err e, w2)"
  shows "getDownloadUrl E br commit w = (Ok [], w2)"
  using assms by (simp add: getDownloadUrl_def)

theorem getDownloadUrl_swallows_artifact_error_witness:
  "getDownloadUrl
     (example_env\<lparr>Unmarshal_ArtifactList := (\<lambda>b. \<lparr>Artifacts_TotalCount = 1,
         Artifacts = [example_artifact ''darwin-amd64'' ''https://dl/8'']\<rparr>)\<rparr>)
     ''master'' ''abc'' example_world
   = (Ok [], example_world\<lparr>sent :=
        [api_request (runs_url ''master''), api_request (artifacts_url 7)]\<rparr>)"
proof -
  let ?E = "example_env\<lparr>Unmarshal_ArtifactList := (\<lambda>b. \<lparr>Artifacts_TotalCount = 1,
         Artifacts = [example_artifact ''darwin-amd64'' ''https://dl/8'']\<rparr>)\<rparr>"
  let ?r = "example_run 7 ''2021-06-03T00:00:00Z'' ''abc''"
  let ?w1 = "example_world\<lparr>sent := [api_request (runs_url ''master'')]\<rparr>"
  let ?w2 = "example_world\<lparr>sent :=
        [api_request (runs_url ''master''), api_request (artifacts_url 7)]\<rparr>"
  have a: "\<not> ReleaseRef ''master''"
    by simp
  have b: "getLastRunOfBranch ?E ''master'' ''abc'' example_world = (Ok ?r, ?w1)"
    by (simp add: getLastRunOfBranch_def doGet_defs example_defs)
  have c: "getWorkflowDownloadUrl ?E (Id ?r) ?w1 = (Err ErrNotFound, ?w2)"
    by (simp add: getWorkflowDownloadUrl_def doGet_defs example_defs)
  show ?thesis
    using getDownloadUrl_swallows_artifact_error [OF a b c] .
qed

text \<open>
  C3, as stated, fails. The listing holds a run created on 3 June whose head commit is
  the resolved identifier \<open>abc\<close>, and after it a run created on 4 June whose head
  commit is \<open>def\<close>. The most recent run records another commit than the identifier,
  and yet \<open>getLastRunOfBranch\<close> returns the older run and \<open>getDownloadUrl\<close> the URL
  of its artifact.
\<close>

theorem getLastRunOfBranch_stale_run_counterexample:
  "WorkflowRuns (Unmarshal_WorkflowRunList (example_two_runs ''def'') (runs_url ''master''))
     = [example_run 7 ''2021-06-03T00:00:00Z'' ''abc'', example_run 8 ''2021-06-04T00:00:00Z'' ''def'']
   \<and> string_less (CreatedAt (example_run 7 ''2021-06-03T00:00:00Z'' ''abc''))
        (CreatedAt (example_run 8 ''2021-06-04T00:00:00Z'' ''def''))
   \<and> HeadSha (example_run 8 ''2021-06-04T00:00:00Z'' ''def'') \<noteq> ''abc''
   \<and> getLastRunOfBranch (example_two_runs ''def'') ''master'' ''abc'' example_world
     = (Ok (example_run 7 ''2021-06-03T00:00:00Z'' ''abc''),
        example_world\<lparr>sent := [api_request (runs_url ''master'')]\<rparr>)
   \<and> getDownloadUrl (example_two_runs ''def'') ''master'' ''abc'' example_world
     = (Ok ''https://dl/7'',
        example_world\<lparr>sent := [api_request (runs_url ''master''), api_request (artifacts_url 7)]\<rparr>)"
  by (simp add: getDownloadUrl_def getWorkflowDownloadUrl_def getLastRunOfBranch_def
      example_two_runs_def doGet_defs example_defs)

text \<open>
  C3, amended: the guard is on the first run of the listing, the latest one only when
  the API lists the runs newest first. Once the listing of the branch's build runs has
  been fetched and decoded: if the list is empty, or its first run records a head commit
  other than the resolved identifier, \<open>getLastRunOfBranch\<close> fails with
  \<open>ErrNotFound\<close> and the locator \<open>getDownloadUrl\<close> returns an error and no URL,
  without asking for any artifact; and a run is returned exactly when it is that first
  run and its head commit equals the identifier.
\<close>

theorem getLastRunOfBranch_commit_guard:
  assumes "doGet E (runs_url br) w = (Ok body, w')"
  shows "(WorkflowRuns (Unmarshal_WorkflowRunList E body) = []
            \<or> HeadSha (hd (WorkflowRuns (Unmarshal_WorkflowRunList E body))) \<noteq> commit
          \<longrightarrow> getLastRunOfBranch E br commit w = (Err ErrNotFound, w')
              \<and> (\<not> ReleaseRef br \<longrightarrow>
                   getDownloadUrl E br commit w = (Err (ErrorString (no_build_message commit br)), w')))
       \<and> (\<forall>run. getLastRunOfBranch E br commit w = (Ok run, w')
            \<longleftrightarrow> WorkflowRuns (Unmarshal_WorkflowRunList E body) \<noteq> []
                \<and> run = hd (WorkflowRuns (Unmarshal_WorkflowRunList E body))
                \<and> HeadSha run = commit)"
  using assms
  by (cases "WorkflowRuns (Unmarshal_WorkflowRunList E body)")
     (auto simp: getLastRunOfBranch_def getDownloadUrl_def)

theorem getLastRunOfBranch_commit_guard_witness:
  "getLastRunOfBranch example_env ''master'' ''def'' example_world
     = (Err ErrNotFound, example_world\<lparr>sent := [api_request (runs_url ''master'')]\<rparr>)
   \<and> getDownloadUrl example_env ''master'' ''def'' example_world
     = (Err (ErrorString (no_build_message ''def'' ''master'')),
        example_world\<lparr>sent := [api_request (runs_url ''master'')]\<rparr>)
   \<and> getLastRunOfBranch example_env ''master'' ''abc'' example_world
     = (Ok (example_run 7 ''2021-06-03T00:00:00Z'' ''abc''),
        example_world\<lparr>sent := [api_request (runs_url ''master'')]\<rparr>)"
proof -
  let ?w' = "example_world\<lparr>sent := [api_request (runs_url ''master'')]\<rparr>"
  have a: "doGet example_env (runs_url ''master'') example_world = (Ok (runs_url ''master''), ?w')"
    by (simp add: doGet_defs example_defs)
  have n: "\<not> ReleaseRef ''master''" by simp
  have runs: "WorkflowRuns (Unmarshal_WorkflowRunList example_env (runs_url ''master'')) = [example_run 7 ''2021-06-03T00:00:00Z'' ''abc'']"
    by (simp add: example_defs)
  show ?thesis
    using getLastRunOfBranch_commit_guard [OF a, of "''def''"]
      getLastRunOfBranch_commit_guard [OF a, of "''abc''"] n
    by (simp add: runs) (simp add: example_run_def)
qed

text \<open>
  C4. On a linux machine whose architecture is arm64, with an artifact list that holds
  \<open>linux-arm64\<close> and \<open>linux-amd64\<close>, \<open>getWorkflowDownloadUrl\<close> passes over the
  entry named by the platform and returns the URL of \<open>linux-amd64\<close>; the release
  path of \<open>getDownloadUrl\<close> does use the architecture.
\<close>

theorem getWorkflowDownloadUrl_ignores_GOARCH:
  "GOOS (example_env\<lparr>GOARCH := ''arm64''\<rparr>) @ ''-'' @ GOARCH (example_env\<lparr>GOARCH := ''arm64''\<rparr>) = ''linux-arm64''
   \<and> getWorkflowDownloadUrl
       (example_env\<lparr>GOARCH := ''arm64'',
          Unmarshal_ArtifactList := (\<lambda>b. \<lparr>Artifacts_TotalCount = 2,
            Artifacts = [example_artifact ''linux-arm64'' ''https://dl/arm64'',
                         example_artifact ''linux-amd64'' ''https://dl/amd64'']\<rparr>)\<rparr>)
       7 example_world
     = (Ok ''https://dl/amd64'', example_world\<lparr>sent := [api_request (artifacts_url 7)]\<rparr>)
   \<and> release_url (example_env\<lparr>GOARCH := ''arm64''\<rparr>) ''21.06.03''
     = ''https://github.com/opendexnetwork/opendex-docker/releases/download/21.06.03/launcher-linux-arm64.zip''"
  by (simp add: getWorkflowDownloadUrl_def doGet_defs example_defs release_url_def)

text \<open>
  C5, as stated, fails: with two runs of the same commit listed oldest first,
  \<open>getLastRunOfBranch\<close> returns the first one, although the second was created later.
\<close>

theorem getLastRunOfBranch_first_not_most_recent:
  "getLastRunOfBranch
     (example_env\<lparr>Unmarshal_WorkflowRunList := (\<lambda>b. \<lparr>Runs_TotalCount = 2,
        WorkflowRuns = [example_run 7 ''2021-06-03T00:00:00Z'' ''abc'',
                        example_run 8 ''2021-06-04T00:00:00Z'' ''abc'']\<rparr>)\<rparr>)
     ''master'' ''abc'' example_world
   = (Ok (example_run 7 ''2021-06-03T00:00:00Z'' ''abc''),
      example_world\<lparr>sent := [api_request (runs_url ''master'')]\<rparr>)
   \<and> string_less (CreatedAt (example_run 7 ''2021-06-03T00:00:00Z'' ''abc''))
        (CreatedAt (example_run 8 ''2021-06-04T00:00:00Z'' ''abc''))"
  by (simp add: getLastRunOfBranch_def doGet_defs example_defs)

text \<open>
  C5, amended. Once the listing has been fetched and decoded to a non-empty list,
  \<open>getLastRunOfBranch\<close> is decided by the first entry alone, in the order the API
  gave the runs and whatever the creation times and the other entries are: it returns
  that entry, unchanged, when its head commit equals the resolved identifier, and fails
  with \<open>ErrNotFound\<close> otherwise.
\<close>

theorem getLastRunOfBranch_takes_first:
  assumes "doGet E (runs_url br) w = (Ok body, w')"
    and "WorkflowRuns (Unmarshal_WorkflowRunList E body) = first # others"
  shows "getLastRunOfBranch E br commit w
           = (if HeadSha first = commit then (Ok first, w') else (Err ErrNotFound, w'))"
  using assms by (simp add: getLastRunOfBranch_def)

theorem getLastRunOfBranch_takes_first_witness:
  "getLastRunOfBranch (example_two_runs ''abc'') ''master'' ''abc'' example_world
     = (Ok (example_run 7 ''2021-06-03T00:00:00Z'' ''abc''),
        example_world\<lparr>sent := [api_request (runs_url ''master'')]\<rparr>)
   \<and> getLastRunOfBranch (example_two_runs ''abc'') ''master'' ''def'' example_world
     = (Err ErrNotFound, example_world\<lparr>sent := [api_request (runs_url ''master'')]\<rparr>)"
proof -
  let ?w' = "example_world\<lparr>sent := [api_request (runs_url ''master'')]\<rparr>"
  have a: "doGet (example_two_runs ''abc'') (runs_url ''master'') example_world
             = (Ok (runs_url ''master''), ?w')"
    by (simp add: example_two_runs_def doGet_defs example_defs)
  have b: "WorkflowRuns (Unmarshal_WorkflowRunList (example_two_runs ''abc'') (runs_url ''master''))
             = example_run 7 ''2021-06-03T00:00:00Z'' ''abc''
               # [example_run 8 ''2021-06-04T00:00:00Z'' ''abc'']"
    by (simp add: example_two_runs_def example_defs)
  have c: "HeadSha (example_run 7 ''2021-06-03T00:00:00Z'' ''abc'') = ''abc''"
    by (simp add: example_run_def)
  show ?thesis
    using getLastRunOfBranch_takes_first [OF a b, of "''abc''"]
      getLastRunOfBranch_takes_first [OF a b, of "''def''"] c
    by simp
qed

text \<open>
  C10. Whenever the commit lookup is answered with status 200 and a body that decodes to
  a map without a string under \<open>sha\<close>, \<open>GetHeadCommit\<close> panics after the one
  request; whenever a response has another status and a body that decodes to a map
  without a string under \<open>message\<close>, \<open>getResponseError\<close> panics. The witness has
  a number under \<open>sha\<close> and an empty map for the body \<open>{}\<close>.
\<close>

theorem unchecked_type_assertions_panic:
  "(url_Parse_error E (commits_url br) = None
      \<and> Client_Do E (sent w) (api_request (commits_url br)) = Inr resp
      \<and> StatusCode resp = 200 \<and> Body resp = Inr body
      \<and> Unmarshal_map E body = Inr m \<and> (\<forall>s. m ''sha'' \<noteq> Some (JString s))
     \<longrightarrow> (\<exists>msg. GetHeadCommit E br w
              = (Panic msg, w\<lparr>sent := sent w @ [api_request (commits_url br)]\<rparr>)))
   \<and> (StatusCode resp' \<noteq> 200 \<and> Body resp' = Inr body'
      \<and> Decode_map E body' = Inr m' \<and> (\<forall>s. m' ''message'' \<noteq> Some (JString s))
     \<longrightarrow> (\<exists>msg. getResponseError E resp' = Panic msg))"
proof (intro conjI impI)
  assume a: "url_Parse_error E (commits_url br) = None
      \<and> Client_Do E (sent w) (api_request (commits_url br)) = Inr resp
      \<and> StatusCode resp = 200 \<and> Body resp = Inr body
      \<and> Unmarshal_map E body = Inr m \<and> (\<forall>s. m ''sha'' \<noteq> Some (JString s))"
  then have "doGet E (commits_url br) w = (Ok body, w\<lparr>sent := sent w @ [api_request (commits_url br)]\<rparr>)"
    by (simp add: doGet_Ok)
  moreover have "\<exists>msg. assert_string m ''sha'' = Panic msg"
    using a by (auto simp: assert_string_def split: option.splits jvalue.splits)
  ultimately show "\<exists>msg. GetHeadCommit E br w
              = (Panic msg, w\<lparr>sent := sent w @ [api_request (commits_url br)]\<rparr>)"
    using a by (auto simp: GetHeadCommit_def)
next
  assume "StatusCode resp' \<noteq> 200 \<and> Body resp' = Inr body'
      \<and> Decode_map E body' = Inr m' \<and> (\<forall>s. m' ''message'' \<noteq> Some (JString s))"
  then show "\<exists>msg. getResponseError E resp' = Panic msg"
    by (auto simp: getResponseError_def assert_string_def split: option.splits jvalue.splits)
qed

theorem unchecked_type_assertions_panic_witness:
  "(\<exists>msg. GetHeadCommit (example_env\<lparr>Unmarshal_map := (\<lambda>b. Inr [''message'' \<mapsto> JString ''moved'', ''sha'' \<mapsto> JNumber 7])\<rparr>) ''master'' example_world
      = (Panic msg, example_world\<lparr>sent := [api_request (commits_url ''master'')]\<rparr>))
   \<and> (\<exists>msg. getResponseError example_env \<lparr>StatusCode = 404, Body = Inr ''{}''\<rparr> = Panic msg)"
  using unchecked_type_assertions_panic [of
     "example_env\<lparr>Unmarshal_map := (\<lambda>b. Inr [''message'' \<mapsto> JString ''moved'', ''sha'' \<mapsto> JNumber 7])\<rparr>"
     "''master''" example_world "\<lparr>StatusCode = 200, Body = Inr (commits_url ''master'')\<rparr>"
     "commits_url ''master''" "[''message'' \<mapsto> JString ''moved'', ''sha'' \<mapsto> JNumber 7]"
     "\<lparr>StatusCode = 404, Body = Inr ''{}''\<rparr>" "''{}''" "Map.empty"]
  unchecked_type_assertions_panic [of example_env _ _ _ _ _ 
     "\<lparr>StatusCode = 404, Body = Inr ''{}''\<rparr>" "''{}''" "Map.empty"]
  by (simp add: example_defs api_request_def)

section \<open>Properties of the version resolution\<close>

lemma doGet_sent:
  "url_Parse_error E u = None \<Longrightarrow> snd (doGet E u w) = w\<lparr>sent := sent w @ [api_request u]\<rparr>"
  by (simp add: doGet_def NewRequest_def api_request_def Let_def
      split: sum.splits result.splits)

text \<open>
  C1, as stated, fails. The branch \<open>21.06.03\<close> matches the release pattern, and yet
  the resolution in \<open>Start\<close> sends the commit lookup for it and takes the hash of the
  answer, \<open>abc\<close>, as the identifier: the cache path is built from \<open>abc\<close>, and the
  first of the two requests of the run is the lookup.
\<close>

theorem Start_resolve_tag_still_looks_up:
  "ReleaseRef ''21.06.03''
   \<and> getBranch example_tag_env = ''21.06.03''
   \<and> Start_resolve example_tag_env ''21.06.03'' example_world
     = (Ok ''abc'', example_world\<lparr>sent := [api_request (commits_url ''21.06.03'')]\<rparr>)
   \<and> fst (Start_prepare example_tag_env NewLauncher example_world)
     = Ok ''/home/u/.opendex-docker/launcher/versions/abc/launcher''
   \<and> sent (snd (Start_prepare example_tag_env NewLauncher example_world))
     = [api_request (commits_url ''21.06.03''),
        \<lparr>Method = ''GET'', Url = release_url example_tag_env ''21.06.03'',
         Header = [(''Authorization'', ''token tok'')]\<rparr>]"
proof -
  have a: "ReleaseRef ''21.06.03''"
    by (simp add: isDigit_def)
  have b: "getBranch example_tag_env = ''21.06.03''"
    by (simp add: getBranch_def example_tag_env_def)
  have c: "Start_resolve example_tag_env ''21.06.03'' example_world
     = (Ok ''abc'', example_world\<lparr>sent := [api_request (commits_url ''21.06.03'')]\<rparr>)"
    by (simp add: Start_resolve_def GetHeadCommit_def assert_string_def doGet_defs
        example_tag_env_def example_defs)
  have d: "fst (Start_prepare example_tag_env NewLauncher example_world)
     = Ok ''/home/u/.opendex-docker/launcher/versions/abc/launcher''"
    by code_simp
  have e: "sent (snd (Start_prepare example_tag_env NewLauncher example_world))
     = [api_request (commits_url ''21.06.03''),
        \<lparr>Method = ''GET'', Url = release_url example_tag_env ''21.06.03'',
         Header = [(''Authorization'', ''token tok'')]\<rparr>]"
    by code_simp
  show ?thesis using a b c d e by blast
qed

text \<open>
  C1, amended. For every branch, whether it matches the release pattern or not, the
  resolution in \<open>Start\<close> hands exactly one request to the transport, the commit
  lookup for that branch (its URL has to parse, or no request is made at all), and it
  returns an identifier exactly when the answer has status 200 and a body that decodes
  to a map with a string under \<open>sha\<close>: that string is the identifier.
\<close>

theorem Start_resolve_one_lookup:
  assumes "url_Parse_error E (commits_url br) = None"
  shows "snd (Start_resolve E br w) = w\<lparr>sent := sent w @ [api_request (commits_url br)]\<rparr>
       \<and> (\<forall>commit. fst (Start_resolve E br w) = Ok commit \<longleftrightarrow>
            (\<exists>resp body m. Client_Do E (sent w) (api_request (commits_url br)) = Inr resp
               \<and> StatusCode resp = 200 \<and> Body resp = Inr body
               \<and> Unmarshal_map E body = Inr m \<and> m ''sha'' = Some (JString commit)))"
proof -
  let ?w1 = "w\<lparr>sent := sent w @ [api_request (commits_url br)]\<rparr>"
  obtain r w1 where d: "doGet E (commits_url br) w = (r, w1)"
    by (cases "doGet E (commits_url br) w")
  have w1: "w1 = ?w1"
    using doGet_sent [OF assms, of w] d by simp
  have a: "snd (Start_resolve E br w) = w1"
    using d by (simp add: Start_resolve_def GetHeadCommit_def split: result.splits sum.splits)
  have s: "assert_string m ''sha'' = Ok commit \<longleftrightarrow> m ''sha'' = Some (JString commit)"
    for m commit
    by (auto simp: assert_string_def split: option.splits jvalue.splits)
  have b: "fst (Start_resolve E br w) = Ok commit \<longleftrightarrow>
            (\<exists>body m. r = Ok body \<and> Unmarshal_map E body = Inr m \<and> m ''sha'' = Some (JString commit))"
    for commit
    using d by (auto simp: Start_resolve_def GetHeadCommit_def s [symmetric]
        split: result.splits sum.splits)
  have c: "r = Ok body \<longleftrightarrow>
            (\<exists>resp. Client_Do E (sent w) (api_request (commits_url br)) = Inr resp
               \<and> StatusCode resp = 200 \<and> Body resp = Inr body)" for body
    using d w1 assms doGet_Ok [of E "commits_url br" w body ?w1] by auto
  show ?thesis
    unfolding a w1 b c by blast
qed

theorem Start_resolve_one_lookup_witness:
  "snd (Start_resolve example_env ''21.06.03'' example_world)
     = example_world\<lparr>sent := sent example_world @ [api_request (commits_url ''21.06.03'')]\<rparr>
   \<and> fst (Start_resolve example_env ''21.06.03'' example_world) = Ok ''abc''
   \<and> fst (Start_resolve example_env ''21.06.03'' example_world) \<noteq> Ok ''21.06.03''"
proof -
  have p: "url_Parse_error example_env (commits_url ''21.06.03'') = None"
    by (simp add: example_defs)
  have r: "\<exists>resp body m. Client_Do example_env (sent example_world) (api_request (commits_url ''21.06.03'')) = Inr resp
               \<and> StatusCode resp = 200 \<and> Body resp = Inr body
               \<and> Unmarshal_map example_env body = Inr m \<and> m ''sha'' = Some (JString ''abc'')"
    by (simp add: example_defs)
  have f: "fst (Start_resolve example_env ''21.06.03'' example_world) = Ok ''abc''"
    using Start_resolve_one_lookup [OF p, of example_world] r by blast
  have g: "snd (Start_resolve example_env ''21.06.03'' example_world)
     = example_world\<lparr>sent := sent example_world @ [api_request (commits_url ''21.06.03'')]\<rparr>"
    using Start_resolve_one_lookup [OF p, of example_world] by blast
  show ?thesis
    using f g by simp
qed

section \<open>Properties of the cache\<close>

lemma same_kind_None: "same_kind None b \<longleftrightarrow> b = None"
  by (cases b) auto

lemma same_kind_Dir: "same_kind (Some (Dir m)) b \<longleftrightarrow> (\<exists>m'. b = Some (Dir m'))"
proof (cases b)
  case None then show ?thesis by simp
next
  case (Some nd) then show ?thesis by (cases nd) auto
qed

lemma same_kind_File: "same_kind (Some (File m x)) b \<longleftrightarrow> (\<exists>m' x'. b = Some (File m' x'))"
proof (cases b)
  case None then show ?thesis by simp
next
  case (Some nd) then show ?thesis by (cases nd) auto
qed

lemma same_kind_refl: "same_kind a a"
proof (cases a)
  case None then show ?thesis by simp
next
  case (Some nd) then show ?thesis by (cases nd) auto
qed

lemma walk_same_kind:
  "(\<And>q. same_kind (node_at fs q) (node_at fs' q)) \<Longrightarrow> walk fs d cs = walk fs' d cs"
proof (induction cs arbitrary: d)
  case Nil
  show ?case by simp
next
  case (Cons c cs)
  have k: "same_kind (node_at fs d) (node_at fs' d)" by (rule Cons.prems)
  have ih: "\<And>d'. walk fs d' cs = walk fs' d' cs"
    using Cons.IH Cons.prems by blast
  show ?case
  proof (cases "node_at fs d")
    case None
    with k have "node_at fs' d = None" by (simp add: same_kind_None)
    with None show ?thesis by simp
  next
    case (Some nd)
    show ?thesis
    proof (cases nd)
      case (Dir m)
      with Some k obtain m' where "node_at fs' d = Some (Dir m')"
        by (auto simp: same_kind_Dir)
      with Some Dir show ?thesis
        using ih by simp
    next
      case (File m x)
      with Some k obtain m' x' where "node_at fs' d = Some (File m' x')"
        by (auto simp: same_kind_File)
      with Some File show ?thesis by simp
    qed
  qed
qed

lemma node_at_upd:
  "node_at (fs(q \<mapsto> nd)) q' = (if q' = [] then Some (Dir 493) else if q' = q then Some nd else node_at fs q')"
  by (simp add: node_at_def)

lemma os_Chmod_0755:
  assumes "os_Chmod w p 493 = Inr w'"
  shows "\<exists>nd. os_Stat w' p = Inr nd \<and> Mode nd AND 511 = 493"
proof -
  from assms obtain q nd where q: "resolve w p = Inr q" and nd: "node_at (files w) q = Some nd"
    by (auto simp: os_Chmod_def split: sum.splits option.splits)
  define nd' where "nd' = (case nd of Dir m \<Rightarrow> Dir (493 AND 511) | File m x \<Rightarrow> File (493 AND 511) x)"
  have w': "w' = w\<lparr>files := (files w)(q \<mapsto> nd')\<rparr>"
    using assms q nd by (cases nd) (auto simp: os_Chmod_def nd'_def)
  have sk: "same_kind (node_at (files w) q') (node_at (files w') q')" for q'
    using nd by (cases nd) (auto simp: w' node_at_upd nd'_def same_kind_refl node_at_def)
  have r: "resolve w' p = Inr q"
    using q walk_same_kind [of "files w" "files w'", OF sk]
    by (auto simp: resolve_def w' split: if_splits)
  show ?thesis
  proof (cases "q = []")
    case True
    then show ?thesis using r q by (simp add: os_Stat_def node_at_def)
  next
    case False
    have m: "Mode nd' AND 511 = 493"
      by (cases nd) (simp_all add: nd'_def)
    show ?thesis using r False m by (simp add: os_Stat_def w' node_at_upd)
  qed
qed

lemma executable_of_0755:
  assumes "Mode nd AND 511 = 493"
  shows "Mode nd AND UserExecutable \<noteq> 0"
proof -
  have "Mode nd AND UserExecutable = Mode nd AND (511 AND 64)"
    by (simp add: UserExecutable_def)
  also have "\<dots> = (Mode nd AND 511) AND 64"
    by (simp only: and.assoc)
  also have "\<dots> = 64"
    by (simp add: assms)
  finally show ?thesis by simp
qed

lemma os_Chmod_IsExecutable:
  "os_Chmod w p 493 = Inr w' \<Longrightarrow> IsExecutable w' p = Ok True"
  using os_Chmod_0755 [of w p w'] executable_of_0755
  by (auto simp: IsExecutable_def)

lemma os_Stat_cong:
  assumes "files w2 = files w1" and "cwd w2 = cwd w1"
  shows "os_Stat w2 p = os_Stat w1 p"
  unfolding os_Stat_def resolve_def assms ..

lemma FileExists_cong:
  assumes "files w2 = files w1" and "cwd w2 = cwd w1"
  shows "FileExists w2 p = FileExists w1 p"
  unfolding FileExists_def os_Stat_cong [OF assms] ..

lemma IsExecutable_cong:
  assumes "files w2 = files w1" and "cwd w2 = cwd w1"
  shows "IsExecutable w2 p = IsExecutable w1 p"
  unfolding IsExecutable_def os_Stat_cong [OF assms] ..


lemma Start_materialize_launcher:
  "Start_materialize E gh br vd commit w = (Ok launcher, w') \<Longrightarrow> launcher = Start_launcher E vd commit"
  by (auto simp: Start_materialize_def Let_def split: result.splits prod.splits if_splits sum.splits)

lemma Start_materialize_IsExecutable:
  assumes "Start_materialize E gh br vd commit w = (Ok launcher, w')"
    and "GOOS E = ''linux'' \<or> GOOS E = ''darwin''"
  shows "IsExecutable w' launcher = Ok True"
  using assms os_Chmod_IsExecutable
  by (auto simp: Start_materialize_def Let_def split: result.splits prod.splits if_splits sum.splits bool.splits)







text \<open>
  C6. If a materialization for an identifier succeeds and the executable exists at its
  path in the cache afterwards, then a materialization for the same identifier in any
  state with the same file system and working directory (whatever was requested, printed
  or run in between) returns the same path and leaves the state untouched: no request is
  made, so nothing is listed or downloaded, and no file changes.
\<close>

theorem Start_materialize_idempotent:
  assumes "Start_materialize E gh br vd commit w = (Ok launcher, w1)"
    and "FileExists w1 launcher = Ok True"
    and "files w2 = files w1" and "cwd w2 = cwd w1"
  shows "Start_materialize E gh br vd commit w2 = (Ok launcher, w2)"
proof -
  have l: "launcher = Start_launcher E vd commit"
    using assms(1) by (rule Start_materialize_launcher)
  have e: "FileExists w2 launcher = Ok True"
    using assms(2) FileExists_cong [OF assms(3,4)] by simp
  show ?thesis
  proof (cases "GOOS E = ''linux'' \<or> GOOS E = ''darwin''")
    case True
    with assms(1) have "IsExecutable w1 launcher = Ok True"
      by (rule Start_materialize_IsExecutable)
    then have "IsExecutable w2 launcher = Ok True"
      using IsExecutable_cong [OF assms(3,4)] by simp
    with True e l show ?thesis
      by (simp add: Start_materialize_def)
  next
    case False
    with e l show ?thesis
      by (simp add: Start_materialize_def)
  qed
qed

theorem Start_materialize_idempotent_witness:
  "fst (Start_materialize example_env \<lparr>AccessToken = ''tok''\<rparr> ''master'' example_versions_dir
          ''abc'' example_ready_world) = Ok example_launcher
   \<and> map Url (sent (snd (Start_materialize example_env \<lparr>AccessToken = ''tok''\<rparr> ''master''
          example_versions_dir ''abc'' example_ready_world)))
       = [runs_url ''master'', artifacts_url 7, ''https://dl/7'']
   \<and> Start_materialize example_env \<lparr>AccessToken = ''tok''\<rparr> ''master'' example_versions_dir ''abc''
        ((snd (Start_materialize example_env \<lparr>AccessToken = ''tok''\<rparr> ''master''
          example_versions_dir ''abc'' example_ready_world))\<lparr>stdout := [''second run'']\<rparr>)
       = (Ok example_launcher,
          (snd (Start_materialize example_env \<lparr>AccessToken = ''tok''\<rparr> ''master''
            example_versions_dir ''abc'' example_ready_world))\<lparr>stdout := [''second run'']\<rparr>)"
proof -
  let ?r = "Start_materialize example_env \<lparr>AccessToken = ''tok''\<rparr> ''master'' example_versions_dir
          ''abc'' example_ready_world"
  have f: "fst ?r = Ok example_launcher"
    by code_simp
  have u: "map Url (sent (snd ?r)) = [runs_url ''master'', artifacts_url 7, ''https://dl/7'']"
    by code_simp
  have x: "FileExists (snd ?r) example_launcher = Ok True"
    by code_simp
  have p: "?r = (Ok example_launcher, snd ?r)"
    using f by (metis prod.collapse)
  show ?thesis
    using Start_materialize_idempotent [OF p x, of "(snd ?r)\<lparr>stdout := [''second run'']\<rparr>"] f u
    by simp
qed

end
